theory Spec2Isabelle
  imports Complex_Main "HOL-Library.Sublist"
begin

section \<open>JavaScript strings\<close>

text \<open>
  A JavaScript string is a sequence of UTF-16 code units; \<open>length\<close>, \<open>slice\<close> and
  \<open>indexOf\<close> count code units. The model is \<^typ>\<open>string\<close>, one \<^typ>\<open>char\<close> per code
  unit, which covers the code units \<open>U+0000\<close> to \<open>U+00FF\<close>.
\<close>

definition isWhiteSpace :: "char \<Rightarrow> bool" where
  \<comment> \<open>the code units removed by \<open>String.prototype.trim\<close> and matched by \<open>\s\<close>:
      TAB, LF, VT, FF, CR, SPACE and NO-BREAK SPACE\<close>
  "isWhiteSpace c \<longleftrightarrow> c \<in> {CHR 0x09, CHR 0x0A, CHR 0x0B, CHR 0x0C, CHR 0x0D, CHR 0x20, CHR 0xA0}"

definition trim :: "string \<Rightarrow> string" where
  "trim s = rev (dropWhile isWhiteSpace (rev (dropWhile isWhiteSpace s)))"

fun startsWith :: "string \<Rightarrow> string \<Rightarrow> bool" where
  "startsWith s [] = True"
| "startsWith [] (p # ps) = False"
| "startsWith (c # cs) (p # ps) = (c = p \<and> startsWith cs ps)"

fun indexOf :: "string \<Rightarrow> string \<Rightarrow> nat option" where
  \<comment> \<open>\<open>s.indexOf(p)\<close>; the result \<open>-1\<close> is \<open>None\<close>\<close>
  "indexOf [] p = (if p = [] then Some 0 else None)"
| "indexOf (c # cs) p =
     (if startsWith (c # cs) p then Some 0 else map_option Suc (indexOf cs p))"

definition slice :: "string \<Rightarrow> nat \<Rightarrow> nat \<Rightarrow> string" where
  \<comment> \<open>\<open>s.slice(a, b)\<close> for non-negative \<open>a\<close> and \<open>b\<close>\<close>
  "slice s a b = take (b - a) (drop a s)"

definition sliceFrom :: "string \<Rightarrow> nat \<Rightarrow> string" where
  \<comment> \<open>\<open>s.slice(a)\<close> for non-negative \<open>a\<close>\<close>
  "sliceFrom s a = drop a s"

fun join :: "string list \<Rightarrow> string \<Rightarrow> string" where
  "join [] sep = []"
| "join [p] sep = p"
| "join (p # q # ps) sep = p @ sep @ join (q # ps) sep"

section \<open>Numbers in strings\<close>

text \<open>
  An issue number is an integer (the \<open>number\<close> of a GitHub issue). For an integer whose
  magnitude is at most \<open>2^53\<close> the conversion to text prints the decimal digits, with a
  minus sign for a negative one; the model is this conversion on \<^typ>\<open>int\<close>.
\<close>

definition digitChar :: "nat \<Rightarrow> char" where
  "digitChar d = char_of (48 + d)"

fun digitsOf :: "nat \<Rightarrow> string" where
  "digitsOf n = (if n < 10 then [digitChar n] else digitsOf (n div 10) @ [digitChar (n mod 10)])"

declare digitsOf.simps [simp del]

definition numberToString :: "int \<Rightarrow> string" where
  \<comment> \<open>the text a template literal puts for an integer issue number\<close>
  "numberToString i = (if i < 0 then CHR ''-'' # digitsOf (nat (- i)) else digitsOf (nat i))"

section \<open>Section codec (utils.ts)\<close>

definition PI_SECTION_START :: string where
  "PI_SECTION_START = ''<!-- pi-agent-notes-start -->''"

definition PI_SECTION_END :: string where
  "PI_SECTION_END = ''<!-- pi-agent-notes-end -->''"



text \<open>
  The regular expression of \<open>extractPiSection\<close>,
  \<^verbatim>\<open><details>[\s\S]*?<summary>[^<]*<\/summary>([\s\S]*?)<\/details>\<close>,
  as the backtracking search it runs: the start of the match moves right until a match
  is found, a lazy \<^verbatim>\<open>[\s\S]*?\<close> takes the least number of code units that lets the rest
  match, and the greedy \<^verbatim>\<open>[^<]*\<close> runs to the next \<^verbatim>\<open><\<close> (a shorter run would be
  followed by a code unit that is not the \<^verbatim>\<open><\<close> of the closing tag).
  Each function returns the text of the capture group, or \<open>None\<close> when nothing matches.
\<close>

fun untilDetailsClose :: "string \<Rightarrow> string option" where
  \<comment> \<open>\<^verbatim>\<open>([\s\S]*?)<\/details>\<close>\<close>
  "untilDetailsClose [] = None"
| "untilDetailsClose (c # cs) =
     (if startsWith (c # cs) ''</details>'' then Some []
      else map_option ((#) c) (untilDetailsClose cs))"

definition summaryThenCapture :: "string \<Rightarrow> string option" where
  \<comment> \<open>\<^verbatim>\<open><summary>[^<]*<\/summary>([\s\S]*?)<\/details>\<close> at the start of the text\<close>
  "summaryThenCapture s =
     (if startsWith s ''<summary>'' then
        (let r = dropWhile (\<lambda>c. c \<noteq> CHR ''<'') (drop (length ''<summary>'') s)
         in if startsWith r ''</summary>'' then untilDetailsClose (drop (length ''</summary>'') r)
            else None)
      else None)"

fun afterDetailsOpen :: "string \<Rightarrow> string option" where
  \<comment> \<open>\<^verbatim>\<open>[\s\S]*?<summary>[^<]*<\/summary>([\s\S]*?)<\/details>\<close>\<close>
  "afterDetailsOpen [] = summaryThenCapture []"
| "afterDetailsOpen (c # cs) =
     (case summaryThenCapture (c # cs) of
        Some cap \<Rightarrow> Some cap
      | None \<Rightarrow> afterDetailsOpen cs)"

definition detailsAt :: "string \<Rightarrow> string option" where
  \<comment> \<open>the whole expression, matched at the start of the text\<close>
  "detailsAt s =
     (if startsWith s ''<details>'' then afterDetailsOpen (drop (length ''<details>'') s)
      else None)"

fun detailsMatch :: "string \<Rightarrow> string option" where
  \<comment> \<open>\<open>section.match(...)\<close>: the capture group of the leftmost match\<close>
  "detailsMatch [] = detailsAt []"
| "detailsMatch (c # cs) =
     (case detailsAt (c # cs) of
        Some cap \<Rightarrow> Some cap
      | None \<Rightarrow> detailsMatch cs)"

definition extractPiSection :: "string \<Rightarrow> string option" where
  "extractPiSection body =
     (case (indexOf body PI_SECTION_START, indexOf body PI_SECTION_END) of
        (Some startIdx, Some endIdx) \<Rightarrow>
          if endIdx \<le> startIdx then None
          else (case detailsMatch (slice body (startIdx + length PI_SECTION_START) endIdx) of
                  Some cap \<Rightarrow> Some (trim cap)
                | None \<Rightarrow> None)
      | _ \<Rightarrow> None)"

definition extractUserContent :: "string \<Rightarrow> string" where
  "extractUserContent body =
     (case (indexOf body PI_SECTION_START, indexOf body PI_SECTION_END) of
        (Some startIdx, Some endIdx) \<Rightarrow>
          if endIdx \<le> startIdx then trim body
          else (let before = trim (slice body 0 startIdx);
                    after = trim (sliceFrom body (endIdx + length PI_SECTION_END))
                in join (filter (\<lambda>p. length p > 0) [before, after]) ''\<newline>\<newline>'')
      | _ \<Rightarrow> trim body)"




section \<open>Naming conventions (utils.ts)\<close>

definition getIssueSessionPrefix :: "int \<Rightarrow> string" where
  "getIssueSessionPrefix issueNumber = ''#'' @ numberToString issueNumber @ '': ''"

definition sessionMatchesIssue :: "string option \<Rightarrow> int \<Rightarrow> bool" where
  \<comment> \<open>\<open>None\<close> is \<open>undefined\<close>; the empty string is falsy as well\<close>
  "sessionMatchesIssue sessionName issueNumber =
     (case sessionName of
        None \<Rightarrow> False
      | Some s \<Rightarrow> if s = [] then False else startsWith s (getIssueSessionPrefix issueNumber))"


subsection \<open>Branch names\<close>

definition toLowerCaseChar :: "char \<Rightarrow> char" where
  \<comment> \<open>\<open>A\<close>-\<open>Z\<close> and the capital letters \<open>U+00C0\<close>-\<open>U+00DE\<close> (without the sign \<open>U+00D7\<close>)
      move up by 32; every other code unit of the model stays\<close>
  "toLowerCaseChar c =
     (let n = (of_char c :: nat)
      in if (65 \<le> n \<and> n \<le> 90) \<or> (192 \<le> n \<and> n \<le> 214) \<or> (216 \<le> n \<and> n \<le> 222)
         then char_of (n + 32) else c)"

definition toLowerCase :: "string \<Rightarrow> string" where
  "toLowerCase s = map toLowerCaseChar s"

definition isSlugChar :: "char \<Rightarrow> bool" where
  \<comment> \<open>the class \<^verbatim>\<open>[a-z0-9]\<close>\<close>
  "isSlugChar c \<longleftrightarrow>
     (let n = (of_char c :: nat) in (97 \<le> n \<and> n \<le> 122) \<or> (48 \<le> n \<and> n \<le> 57))"

definition isDigit :: "char \<Rightarrow> bool" where
  \<comment> \<open>the class \<^verbatim>\<open>\d\<close>\<close>
  "isDigit c \<longleftrightarrow> (let n = (of_char c :: nat) in 48 \<le> n \<and> n \<le> 57)"

definition isDash :: "char \<Rightarrow> bool" where
  "isDash c \<longleftrightarrow> c = CHR ''-''"

function replaceNonSlugRuns :: "string \<Rightarrow> string" where
  \<comment> \<open>\<^verbatim>\<open>.replace(/[^a-z0-9]+/g, "-")\<close>: each match is a maximal run\<close>
  "replaceNonSlugRuns [] = []"
| "replaceNonSlugRuns (c # cs) =
     (if isSlugChar c then c # replaceNonSlugRuns cs
      else CHR ''-'' # replaceNonSlugRuns (dropWhile (\<lambda>x. \<not> isSlugChar x) cs))"
  by pat_completeness auto
termination
  by (relation "measure length") (auto simp: le_imp_less_Suc length_dropWhile_le)

fun removeTrailingDashes :: "string \<Rightarrow> string" where
  \<comment> \<open>the search for \<^verbatim>\<open>-+$\<close> from left to right: the first position from which dashes
      run to the end of the text starts the match, which is replaced by nothing\<close>
  "removeTrailingDashes [] = []"
| "removeTrailingDashes (c # cs) =
     (if isDash c \<and> dropWhile isDash cs = [] then []
      else c # removeTrailingDashes cs)"

definition removeEdgeDashes :: "string \<Rightarrow> string" where
  \<comment> \<open>\<^verbatim>\<open>.replace(/^-+|-+$/g, "")\<close>: at position 0 the first alternative takes the leading
      run of dashes; from any later position only \<^verbatim>\<open>-+$\<close> can match\<close>
  "removeEdgeDashes s =
     (case s of
        [] \<Rightarrow> []
      | c # cs \<Rightarrow>
          if isDash c then removeTrailingDashes (dropWhile isDash cs)
          else c # removeTrailingDashes cs)"

record issue_ref =
  number :: int
  title :: string

definition getIssueBranchName :: "issue_ref \<Rightarrow> string" where
  "getIssueBranchName issue =
     (let slug = removeTrailingDashes (slice (removeEdgeDashes (replaceNonSlugRuns
                   (toLowerCase (title issue)))) 0 50)
      in ''todo/'' @ numberToString (number issue) @ ''-'' @ slug)"

definition digitValue :: "char \<Rightarrow> nat" where
  "digitValue c = of_char c - 48"

definition parseInt :: "string \<Rightarrow> int" where
  \<comment> \<open>\<open>parseInt(ds, 10)\<close> on a text of decimal digits\<close>
  "parseInt ds = int (foldl (\<lambda>acc c. 10 * acc + digitValue c) 0 ds)"

definition extractIssueNumberFromBranch :: "string \<Rightarrow> int option" where
  \<comment> \<open>\<^verbatim>\<open>branchName.match(/^todo\/(\d+)-/)\<close>: the greedy \<^verbatim>\<open>\d+\<close> takes the whole run of
      digits (after a shorter run the next code unit is a digit, never the dash)\<close>
  "extractIssueNumberFromBranch branchName =
     (if startsWith branchName ''todo/'' then
        (let r = drop (length ''todo/'') branchName;
             ds = takeWhile isDigit r;
             rest = dropWhile isDigit r
         in if ds \<noteq> [] \<and> startsWith rest ''-'' then Some (parseInt ds) else None)
      else None)"

text \<open>The slug as the specification words it: lowercase the title, collapse every run of
  characters outside \<^verbatim>\<open>[a-z0-9]\<close> to a single dash, strip leading and trailing dashes,
  truncate to 50 characters, strip trailing dashes again.\<close>

fun squeezeDashes :: "string \<Rightarrow> string" where
  "squeezeDashes (c # d # cs) =
     (if isDash c \<and> isDash d then squeezeDashes (d # cs) else c # squeezeDashes (d # cs))"
| "squeezeDashes cs = cs"

definition specCollapse :: "string \<Rightarrow> string" where
  "specCollapse s = squeezeDashes (map (\<lambda>c. if isSlugChar c then c else CHR ''-'') s)"

definition specStripLeading :: "string \<Rightarrow> string" where
  "specStripLeading s = dropWhile isDash s"

definition specStripTrailing :: "string \<Rightarrow> string" where
  "specStripTrailing s = rev (dropWhile isDash (rev s))"

definition specSlug :: "string \<Rightarrow> string" where
  "specSlug t =
     specStripTrailing (take 50 (specStripTrailing (specStripLeading (specCollapse (toLowerCase t)))))"

section \<open>Parsing the CLI's JSON (utils.ts)\<close>

text \<open>
  The values \<open>JSON.parse\<close> returns. \<open>JSON.parse\<close> itself belongs to the runtime: the
  parsing functions take it as the parameter \<open>parse\<close>, where \<open>None\<close> stands for the
  SyntaxError it throws. A value that may be \<open>undefined\<close> is a \<open>json option\<close>.
\<close>

datatype json =
    JNull
  | JBool bool
  | JNumber real
  | JString string
  | JArray "json list"
  | JObject "(string \<times> json) list"

datatype js_error = TypeError | Error string

definition bindE :: "js_error + 'a \<Rightarrow> ('a \<Rightarrow> js_error + 'b) \<Rightarrow> js_error + 'b" where
  "bindE m f = (case m of Inl e \<Rightarrow> Inl e | Inr x \<Rightarrow> f x)"

fun mapE :: "('a \<Rightarrow> js_error + 'b) \<Rightarrow> 'a list \<Rightarrow> js_error + 'b list" where
  \<comment> \<open>\<open>Array.prototype.map\<close> with a callback that may throw\<close>
  "mapE f [] = Inr []"
| "mapE f (x # xs) = bindE (f x) (\<lambda>y. bindE (mapE f xs) (\<lambda>ys. Inr (y # ys)))"

fun getProp :: "json option \<Rightarrow> string \<Rightarrow> js_error + json option" where
  \<comment> \<open>\<open>v.p\<close> for one of the property names the parsers read: it throws on \<open>null\<close> and
      \<open>undefined\<close>, reads an object's own property (the list holds one entry per name),
      and is \<open>undefined\<close> on every other value (no prototype has a property of these
      names)\<close>
  "getProp None p = Inl TypeError"
| "getProp (Some JNull) p = Inl TypeError"
| "getProp (Some (JObject kvs)) p = Inr (map_of kvs p)"
| "getProp (Some v) p = Inr None"

fun truthy :: "json option \<Rightarrow> bool" where
  "truthy None = False"
| "truthy (Some JNull) = False"
| "truthy (Some (JBool b)) = b"
| "truthy (Some (JNumber r)) = (r \<noteq> 0)"
| "truthy (Some (JString s)) = (s \<noteq> [])"
| "truthy (Some v) = True"

definition orElse :: "json option \<Rightarrow> json \<Rightarrow> json" where
  \<comment> \<open>\<open>v || d\<close>\<close>
  "orElse v d = (if truthy v then the v else d)"

fun normalizeState :: "json option \<Rightarrow> js_error + string" where
  \<comment> \<open>\<open>state?.toLowerCase() === "closed" ? "closed" : "open"\<close>: the optional chain stops at
      \<open>null\<close> and \<open>undefined\<close>; only a string has the method \<open>toLowerCase\<close>\<close>
  "normalizeState None = Inr ''open''"
| "normalizeState (Some JNull) = Inr ''open''"
| "normalizeState (Some (JString st)) = Inr (if toLowerCase st = ''closed'' then ''closed'' else ''open'')"
| "normalizeState (Some v) = Inl TypeError"

definition namesOf :: "string \<Rightarrow> json option \<Rightarrow> js_error + json option list" where
  \<comment> \<open>\<open>(xs || []).map(l => typeof l === "string" ? l : l[key])\<close>: only an array has the
      method \<open>map\<close>\<close>
  "namesOf key xs =
     (case orElse xs (JArray []) of
        JArray items \<Rightarrow>
          mapE (\<lambda>l. case l of JString t \<Rightarrow> Inr (Some l) | _ \<Rightarrow> getProp (Some l) key) items
      | _ \<Rightarrow> Inl TypeError)"

record gh_issue =
  issue_number :: "json option"
  issue_title :: "json option"
  state :: string
  body :: json
  labels :: "json option list"
  assignees :: "json option list"
  url :: json
  createdAt :: json
  updatedAt :: json

definition issueOfJson :: "json \<Rightarrow> js_error + gh_issue" where
  \<comment> \<open>the object literal that \<open>parseIssues\<close> and \<open>parseIssue\<close> both build\<close>
  "issueOfJson issue =
     bindE (getProp (Some issue) ''number'') (\<lambda>n.
     bindE (getProp (Some issue) ''title'') (\<lambda>t.
     bindE (getProp (Some issue) ''state'') (\<lambda>st.
     bindE (normalizeState st) (\<lambda>st'.
     bindE (getProp (Some issue) ''body'') (\<lambda>b.
     bindE (getProp (Some issue) ''labels'') (\<lambda>ls.
     bindE (namesOf ''name'' ls) (\<lambda>ls'.
     bindE (getProp (Some issue) ''assignees'') (\<lambda>as.
     bindE (namesOf ''login'' as) (\<lambda>as'.
     bindE (getProp (Some issue) ''url'') (\<lambda>u.
     bindE (getProp (Some issue) ''createdAt'') (\<lambda>c.
     bindE (getProp (Some issue) ''updatedAt'') (\<lambda>d.
       Inr \<lparr>issue_number = n, issue_title = t, state = st',
            body = orElse b (JString []), labels = ls', assignees = as',
            url = orElse u (JString []), createdAt = orElse c (JString []),
            updatedAt = orElse d (JString [])\<rparr>))))))))))))"

definition parseIssues :: "(string \<Rightarrow> json option) \<Rightarrow> string \<Rightarrow> gh_issue list" where
  "parseIssues parse json =
     (case parse json of
        None \<Rightarrow> []
      | Some raw \<Rightarrow>
          (case raw of
             JArray items \<Rightarrow> (case mapE issueOfJson items of Inl e \<Rightarrow> [] | Inr issues \<Rightarrow> issues)
           | _ \<Rightarrow> []))"

definition parseIssue :: "(string \<Rightarrow> json option) \<Rightarrow> string \<Rightarrow> gh_issue option" where
  "parseIssue parse json =
     (case parse json of
        None \<Rightarrow> None
      | Some issue \<Rightarrow> (case issueOfJson issue of Inl e \<Rightarrow> None | Inr i \<Rightarrow> Some i))"

record exec_result =
  code :: int
  stdout :: string
  stderr :: string

definition listIssues :: "(string \<Rightarrow> json option) \<Rightarrow> exec_result \<Rightarrow> js_error + gh_issue list" where
  \<comment> \<open>\<open>listIssues\<close> (the gateway) after its call of the CLI has returned \<open>result\<close>\<close>
  "listIssues parse result =
     (if code result \<noteq> 0 then Inl (Error (''Failed to list issues: '' @ stderr result))
      else Inr (parseIssues parse (stdout result)))"

definition isArray :: "json \<Rightarrow> bool" where
  "isArray v = (case v of JArray items \<Rightarrow> True | _ \<Rightarrow> False)"

text \<open>The state field of a parsed value lowercases to \<open>closed\<close>.\<close>

definition stateFieldClosed :: "json \<Rightarrow> bool" where
  "stateFieldClosed v =
     (case getProp (Some v) ''state'' of
        Inr (Some (JString st)) \<Rightarrow> toLowerCase st = ''closed''
      | _ \<Rightarrow> False)"

text \<open>A parser for the examples: it knows three texts and rejects every other.\<close>

definition exampleParse :: "string \<Rightarrow> json option" where
  \<open>exampleParse s =
     (if s = ''{"state":"CLOSED"}'' then Some (JObject [(''state'', JString ''CLOSED'')])
      else if s = ''[{"state":"CLOSED"},{"state":"MERGED"},{}]'' then
        Some (JArray [JObject [(''state'', JString ''CLOSED'')],
                      JObject [(''state'', JString ''MERGED'')], JObject []])
      else if s = ''{}'' then Some (JObject [])
      else None)\<close>

section \<open>Session history (utils.ts, pr.ts)\<close>

text \<open>
  The part of the host's session that the extension reads: the entries of the current
  branch, oldest first, and the label attached to an entry id (\<open>undefined\<close> is \<open>None\<close>).
  Both are the values the host's functions return.
\<close>

datatype content_block =
    TextContent string  \<comment> \<open>\<open>{type: "text", text}\<close>\<close>
  | OtherContent        \<comment> \<open>a block of any other type\<close>

datatype message_content =
    ContentString string
  | ContentBlocks "content_block list"

record tool_details =
  path :: "string option"
  command :: "string option"

datatype message =
    UserMessage message_content
  | AssistantMessage message_content
  | ToolResultMessage string bool "tool_details option"
      \<comment> \<open>\<open>toolName\<close>, \<open>isError\<close>, \<open>details\<close>\<close>
  | OtherMessage

datatype entry_kind =
    MessageEntry message
  | OtherEntry

record session_entry =
  entry_id :: string
  entry_kind :: entry_kind

record extension_context =
  getBranch :: "session_entry list"
  getLabel :: "string \<Rightarrow> string option"

definition PR_LABEL_CREATED :: string where
  "PR_LABEL_CREATED = ''pr-created''"

definition PR_LABEL_UPDATED :: string where
  "PR_LABEL_UPDATED = ''pr-update''"

fun checkpointScan :: "extension_context \<Rightarrow> session_entry list \<Rightarrow> nat \<Rightarrow> string option" where
  \<comment> \<open>the loop \<open>for (let i = entries.length - 1; i >= 0; i--)\<close>; the third argument is \<open>i + 1\<close>\<close>
  "checkpointScan ctx entries 0 = None"
| "checkpointScan ctx entries (Suc i) =
     (let entry = entries ! i;
          label = getLabel ctx (entry_id entry)
      in if label = Some PR_LABEL_CREATED \<or> label = Some PR_LABEL_UPDATED
         then Some (entry_id entry)
         else checkpointScan ctx entries i)"

definition findLastPrCheckpointEntryId :: "extension_context \<Rightarrow> string option" where
  "findLastPrCheckpointEntryId ctx =
     (let entries = getBranch ctx in checkpointScan ctx entries (length entries))"

fun findIndex :: "('a \<Rightarrow> bool) \<Rightarrow> 'a list \<Rightarrow> nat option" where
  \<comment> \<open>\<open>Array.prototype.findIndex\<close>; the result \<open>-1\<close> is \<open>None\<close>\<close>
  "findIndex P [] = None"
| "findIndex P (x # xs) = (if P x then Some 0 else map_option Suc (findIndex P xs))"

definition getEntriesAfter :: "extension_context \<Rightarrow> string option \<Rightarrow> session_entry list" where
  \<comment> \<open>\<open>None\<close> is \<open>null\<close>; the empty string is falsy as well\<close>
  "getEntriesAfter ctx afterEntryId =
     (let entries = getBranch ctx in
      case afterEntryId of
        None \<Rightarrow> entries
      | Some a \<Rightarrow>
          if a = [] then entries
          else (case findIndex (\<lambda>e. entry_id e = a) entries of
                  None \<Rightarrow> entries
                | Some idx \<Rightarrow> drop (idx + 1) entries))"

text \<open>An entry is a checkpoint when the label of its id is one of the two PR labels.\<close>

definition isCheckpoint :: "extension_context \<Rightarrow> session_entry \<Rightarrow> bool" where
  "isCheckpoint ctx e \<longleftrightarrow>
     getLabel ctx (entry_id e) = Some ''pr-created'' \<or> getLabel ctx (entry_id e) = Some ''pr-update''"

subsection \<open>Context gatherer (pr.ts)\<close>

definition blocksText :: "content_block list \<Rightarrow> string" where
  \<comment> \<open>\<open>content.map(c => c.type === "text" ? c.text : "").join("")\<close>\<close>
  "blocksText content = concat (map (\<lambda>c. case c of TextContent t \<Rightarrow> t | OtherContent \<Rightarrow> []) content)"

definition toBlocks :: "message_content \<Rightarrow> content_block list" where
  \<comment> \<open>\<open>Array.isArray(msg.content) ? msg.content : [{type: "text", text: msg.content}]\<close>\<close>
  "toBlocks c = (case c of ContentString s \<Rightarrow> [TextContent s] | ContentBlocks bs \<Rightarrow> bs)"

definition toolLine :: "string \<Rightarrow> bool \<Rightarrow> tool_details option \<Rightarrow> string" where
  \<comment> \<open>what a tool result adds to the context; shared by both gatherers\<close>
  "toolLine toolName isError details =
     (if \<not> isError then
        (if toolName = ''write'' \<or> toolName = ''edit'' then
           (case details of
              None \<Rightarrow> []
            | Some d \<Rightarrow>
                (case path d of
                   None \<Rightarrow> []
                 | Some p \<Rightarrow> if p = [] then []
                            else ''Tool: '' @ toolName @ '' '' @ p @ ''\<newline>\<newline>''))
         else if toolName = ''bash'' then
           (case details of
              None \<Rightarrow> []
            | Some d \<Rightarrow>
                (case command d of
                   None \<Rightarrow> []
                 | Some c \<Rightarrow> if c = [] then []
                            else ''Tool: bash `'' @ slice c 0 100 @ ''`\<newline>\<newline>''))
         else [])
      else [])"

definition appendEntry :: "string \<Rightarrow> session_entry \<Rightarrow> string" where
  \<comment> \<open>the body of the loop of \<open>gatherSessionContext\<close>\<close>
  "appendEntry sessionContext entry =
     (case entry_kind entry of
        OtherEntry \<Rightarrow> sessionContext
      | MessageEntry msg \<Rightarrow>
          (case msg of
             UserMessage c \<Rightarrow>
               (let text = blocksText (toBlocks c)
                in if text \<noteq> [] then sessionContext @ ''User: '' @ slice text 0 500 @ ''\<newline>\<newline>''
                   else sessionContext)
           | AssistantMessage c \<Rightarrow>
               (let text = blocksText (toBlocks c)
                in if text \<noteq> [] then sessionContext @ ''Assistant: '' @ slice text 0 500 @ ''\<newline>\<newline>''
                   else sessionContext)
           | ToolResultMessage toolName isError details \<Rightarrow>
               sessionContext @ toolLine toolName isError details
           | OtherMessage \<Rightarrow> sessionContext))"

fun gatherLoop :: "string \<Rightarrow> session_entry list \<Rightarrow> string" where
  "gatherLoop sessionContext [] = sessionContext"
| "gatherLoop sessionContext (entry # entries) = gatherLoop (appendEntry sessionContext entry) entries"

definition gatherSessionContext :: "extension_context \<Rightarrow> string" where
  "gatherSessionContext ctx = slice (gatherLoop [] (getBranch ctx)) 0 8000"

definition mapBlocksText :: "message_content \<Rightarrow> string option" where
  \<comment> \<open>\<open>msg.content.map(...).join("")\<close> without the array test: a string has no \<open>map\<close>,
      the call throws a TypeError (\<open>None\<close>)\<close>
  "mapBlocksText c = (case c of ContentString s \<Rightarrow> None | ContentBlocks bs \<Rightarrow> Some (blocksText bs))"

definition appendEntryScoped :: "string \<Rightarrow> session_entry \<Rightarrow> string option" where
  \<comment> \<open>the body of the loop of \<open>gatherScopedSessionContext\<close>; \<open>None\<close> when it throws\<close>
  "appendEntryScoped sessionContext entry =
     (case entry_kind entry of
        OtherEntry \<Rightarrow> Some sessionContext
      | MessageEntry msg \<Rightarrow>
          (case msg of
             UserMessage c \<Rightarrow>
               (case mapBlocksText c of
                  None \<Rightarrow> None
                | Some text \<Rightarrow>
                    if text \<noteq> [] then Some (sessionContext @ ''User: '' @ slice text 0 500 @ ''\<newline>\<newline>'')
                    else Some sessionContext)
           | AssistantMessage c \<Rightarrow>
               (case mapBlocksText c of
                  None \<Rightarrow> None
                | Some text \<Rightarrow>
                    if text \<noteq> [] then Some (sessionContext @ ''Assistant: '' @ slice text 0 500 @ ''\<newline>\<newline>'')
                    else Some sessionContext)
           | ToolResultMessage toolName isError details \<Rightarrow>
               Some (sessionContext @ toolLine toolName isError details)
           | OtherMessage \<Rightarrow> Some sessionContext))"

fun gatherScopedLoop :: "string \<Rightarrow> session_entry list \<Rightarrow> string" where
  \<comment> \<open>an exception leaves the loop; the \<open>catch\<close> keeps what was gathered so far\<close>
  "gatherScopedLoop sessionContext [] = sessionContext"
| "gatherScopedLoop sessionContext (entry # entries) =
     (case appendEntryScoped sessionContext entry of
        None \<Rightarrow> sessionContext
      | Some sessionContext' \<Rightarrow> gatherScopedLoop sessionContext' entries)"

definition gatherScopedSessionContext :: "extension_context \<Rightarrow> string" where
  "gatherScopedSessionContext ctx =
     (let checkpointId = findLastPrCheckpointEntryId ctx;
          entries = getEntriesAfter ctx checkpointId
      in slice (gatherScopedLoop [] entries) 0 8000)"

text \<open>The text of a user or assistant message, as each gatherer reads it.\<close>

definition messageText :: "message \<Rightarrow> string option" where
  "messageText msg =
     (case msg of
        UserMessage c \<Rightarrow> Some (blocksText (toBlocks c))
      | AssistantMessage c \<Rightarrow> Some (blocksText (toBlocks c))
      | _ \<Rightarrow> None)"

definition roleLabel :: "message \<Rightarrow> string" where
  "roleLabel msg = (case msg of UserMessage c \<Rightarrow> ''User: '' | AssistantMessage c \<Rightarrow> ''Assistant: '' | _ \<Rightarrow> [])"

text \<open>What one entry contributes to the gathered context, and the entries on which the
  scoped gatherer's loop body throws.\<close>

definition entryLine :: "session_entry \<Rightarrow> string" where
  "entryLine entry = appendEntry [] entry"

definition scopedThrows :: "session_entry \<Rightarrow> bool" where
  "scopedThrows entry \<longleftrightarrow> appendEntryScoped [] entry = None"

text \<open>The histories of the worked example: three entries, the second labelled
  \<open>pr-created\<close>; and the same entries without any label.\<close>

definition exampleEntries :: "session_entry list" where
  "exampleEntries =
     [\<lparr>entry_id = ''e1'', entry_kind = OtherEntry\<rparr>,
      \<lparr>entry_id = ''e2'', entry_kind = OtherEntry\<rparr>,
      \<lparr>entry_id = ''e3'', entry_kind = OtherEntry\<rparr>]"

definition exampleLabelled :: extension_context where
  "exampleLabelled =
     \<lparr>getBranch = exampleEntries,
      getLabel = (\<lambda>i. if i = ''e2'' then Some ''pr-created'' else None)\<rparr>"

definition exampleUnlabelled :: extension_context where
  "exampleUnlabelled = \<lparr>getBranch = exampleEntries, getLabel = (\<lambda>i. None)\<rparr>"

section \<open>The \<open>pr\<close> action of the \<open>gh_todo\<close> tool (tool.ts)\<close>

definition isMainBranch :: "string \<Rightarrow> bool" where
  "isMainBranch branchName \<longleftrightarrow> branchName = ''main'' \<or> branchName = ''master''"

definition extractIssueNumberFromSession :: "string option \<Rightarrow> int option" where
  \<comment> \<open>\<^verbatim>\<open>sessionName.match(/^#(\d+):/)\<close>\<close>
  "extractIssueNumberFromSession sessionName =
     (case sessionName of
        None \<Rightarrow> None
      | Some s \<Rightarrow>
          if s = [] then None
          else if startsWith s ''#'' then
            (let r = drop (length ''#'') s;
                 ds = takeWhile isDigit r;
                 rest = dropWhile isDigit r
             in if ds \<noteq> [] \<and> startsWith rest '':'' then Some (parseInt ds) else None)
          else None)"

text \<open>
  One invocation of the tool runs against the answers of the gateway functions and of
  the host. Each gateway function either returns (\<open>Inr\<close>) or throws a value whose
  message text is given (\<open>Inl\<close>). \<open>aborted n\<close> is the value of \<open>signal?.aborted\<close> once
  \<open>n\<close> gateway calls have completed (the signal can only change while the tool awaits).
  \<open>toText\<close> is the conversion a template literal applies to a value.
\<close>

record tool_env =
  checkGhCli :: "string + bool"
  getCurrentBranch :: "string + string"
  getSessionName :: "string option"
  getIssue :: "int \<Rightarrow> string + gh_issue"
  hasUncommittedChanges :: "string + bool"
  hasUpstream :: "string \<Rightarrow> string + bool"
  pushBranch :: "string \<Rightarrow> string + unit"
  findPrTemplate :: "string + string option"
  fillPrTemplate :: "string \<Rightarrow> gh_issue \<Rightarrow> string \<Rightarrow> bool \<Rightarrow> string"
  generatePrSummary :: "gh_issue \<Rightarrow> string \<Rightarrow> bool \<Rightarrow> string"
  createPr :: "string \<Rightarrow> string \<Rightarrow> string \<Rightarrow> string + (string \<times> int)"
  aborted :: "nat \<Rightarrow> bool"
  toText :: "json option \<Rightarrow> string"

datatype gateway_call =
    CheckGhCli
  | GetCurrentBranch
  | GetIssue int
  | HasUncommittedChanges
  | HasUpstream string
  | PushBranch string
  | FindPrTemplate
  | FillPrTemplate
  | GeneratePrSummary
  | CreatePr string string string

record tool_params =
  p_number :: "int option"
  p_close :: "bool option"

record todo_details =
  d_action :: string
  d_error :: "string option"
  d_issue :: "gh_issue option"
  d_prUrl :: "string option"
  d_prNumber :: "int option"

record tool_result =
  r_text :: string
  r_details :: todo_details
  r_isError :: bool

definition errorResult :: "string \<Rightarrow> string \<Rightarrow> gh_issue option \<Rightarrow> tool_result" where
  \<comment> \<open>\<open>{content: [text], details: {action: "pr", error, issue?}, isError: true}\<close>\<close>
  "errorResult msg err iss =
     \<lparr>r_text = msg,
      r_details = \<lparr>d_action = ''pr'', d_error = Some err, d_issue = iss,
                   d_prUrl = None, d_prNumber = None\<rparr>,
      r_isError = True\<rparr>"

definition cancelledResult :: "string option \<Rightarrow> tool_result" where
  \<comment> \<open>\<open>{content: ["Cancelled"], details: {action: params.action, error?}}\<close>\<close>
  "cancelledResult err =
     \<lparr>r_text = ''Cancelled'',
      r_details = \<lparr>d_action = ''pr'', d_error = err, d_issue = None,
                   d_prUrl = None, d_prNumber = None\<rparr>,
      r_isError = False\<rparr>"

text \<open>The stages of \<open>case "pr"\<close>. Each returns the calls made so far (oldest first) with
  either the tool's result or the message of an exception thrown inside the \<open>try\<close>.\<close>

definition prCreate ::
  "tool_env \<Rightarrow> tool_params \<Rightarrow> extension_context \<Rightarrow> string \<Rightarrow> gh_issue \<Rightarrow> gateway_call list
     \<Rightarrow> (string + tool_result) \<times> gateway_call list" where
  \<comment> \<open>from \<open>gatherSessionContext\<close> to the end of the case\<close>
  "prCreate env params ctx currentBranch iss calls =
     (let sessionContext = gatherSessionContext ctx;
          calls1 = calls @ [FindPrTemplate]
      in case findPrTemplate env of
           Inl e \<Rightarrow> (Inl e, calls1)
         | Inr template \<Rightarrow>
             (let shouldClose = (p_close params = Some True)
              in if aborted env (length calls1) then (Inr (cancelledResult None), calls1)
                 else
                   (let useTemplate = (case template of None \<Rightarrow> False | Some t \<Rightarrow> t \<noteq> []);
                        calls2 = calls1 @ [if useTemplate then FillPrTemplate else GeneratePrSummary];
                        prBody = (if useTemplate
                                  then fillPrTemplate env (the template) iss sessionContext shouldClose
                                  else generatePrSummary env iss sessionContext shouldClose)
                    in if aborted env (length calls2) then (Inr (cancelledResult None), calls2)
                       else
                         (let prTitle = toText env (issue_title iss) @ '' (#''
                                          @ toText env (issue_number iss) @ '')'';
                              calls3 = calls2 @ [CreatePr prTitle prBody currentBranch]
                          in case createPr env prTitle prBody currentBranch of
                               Inl e \<Rightarrow> (Inl e, calls3)
                             | Inr (prUrl, prNum) \<Rightarrow>
                                 (Inr \<lparr>r_text = ''Created PR #'' @ numberToString prNum
                                          @ '' for issue #'' @ toText env (issue_number iss)
                                          @ ''\<newline>'' @ prUrl,
                                        r_details = \<lparr>d_action = ''pr'', d_error = None,
                                          d_issue = Some iss, d_prUrl = Some prUrl,
                                          d_prNumber = Some prNum\<rparr>,
                                        r_isError = False\<rparr>, calls3)))))"

definition prPush ::
  "tool_env \<Rightarrow> tool_params \<Rightarrow> extension_context \<Rightarrow> string \<Rightarrow> gh_issue \<Rightarrow> gateway_call list
     \<Rightarrow> (string + tool_result) \<times> gateway_call list" where
  \<comment> \<open>from the test of the issue's state to the push of the branch\<close>
  "prPush env params ctx currentBranch iss calls =
     (if state iss = ''closed'' then
        (Inr (errorResult (''Error: Issue #'' @ toText env (issue_number iss) @ '' is already closed.'')
                ''issue closed'' (Some iss)), calls)
      else
        (let calls1 = calls @ [HasUncommittedChanges]
         in case hasUncommittedChanges env of
              Inl e \<Rightarrow> (Inl e, calls1)
            | Inr dirty \<Rightarrow>
                if dirty then
                  (Inr (errorResult
                     ''Error: You have uncommitted changes. Commit or stash them before creating a PR.''
                     ''uncommitted changes'' (Some iss)), calls1)
                else if aborted env (length calls1) then (Inr (cancelledResult None), calls1)
                else
                  (let calls2 = calls1 @ [HasUpstream currentBranch]
                   in case hasUpstream env currentBranch of
                        Inl e \<Rightarrow> (Inl e, calls2)
                      | Inr up \<Rightarrow>
                          if up then
                            (if aborted env (length calls2) then (Inr (cancelledResult None), calls2)
                             else prCreate env params ctx currentBranch iss calls2)
                          else
                            (let calls3 = calls2 @ [PushBranch currentBranch]
                             in case pushBranch env currentBranch of
                                  Inl e \<Rightarrow> (Inl e, calls3)
                                | Inr u \<Rightarrow>
                                    if aborted env (length calls3)
                                    then (Inr (cancelledResult None), calls3)
                                    else prCreate env params ctx currentBranch iss calls3))))"

definition firstDefined :: "int option \<Rightarrow> int option \<Rightarrow> int option" where
  \<comment> \<open>\<open>a ?? b\<close>\<close>
  "firstDefined a b = (case a of None \<Rightarrow> b | Some x \<Rightarrow> Some x)"

definition prCase ::
  "tool_env \<Rightarrow> tool_params \<Rightarrow> extension_context \<Rightarrow> gateway_call list
     \<Rightarrow> (string + tool_result) \<times> gateway_call list" where
  \<comment> \<open>\<open>case "pr"\<close> from its first statement to the fetch of the issue\<close>
  "prCase env params ctx calls =
     (let calls1 = calls @ [GetCurrentBranch]
      in case getCurrentBranch env of
           Inl e \<Rightarrow> (Inl e, calls1)
         | Inr currentBranch \<Rightarrow>
             if aborted env (length calls1) then (Inr (cancelledResult None), calls1)
             else if isMainBranch currentBranch then
               (Inr (errorResult
                  ''Error: Cannot create PR from main/master branch. Create a feature branch first.''
                  ''on main branch'' None), calls1)
             else
               (let sessionIssueNum = extractIssueNumberFromSession (getSessionName env);
                    branchIssueNum = extractIssueNumberFromBranch currentBranch
                in if branchIssueNum \<noteq> None \<and> sessionIssueNum \<noteq> None
                      \<and> branchIssueNum \<noteq> sessionIssueNum then
                     (Inr (errorResult
                        (''Error: Branch todo/'' @ numberToString (the branchIssueNum)
                           @ ''-* doesn't match session issue #''
                           @ numberToString (the sessionIssueNum)
                           @ ''. Session and branch should be for the same issue.'')
                        ''branch/session mismatch'' None), calls1)
                   else
                     (let issueNumber = firstDefined (p_number params)
                                          (firstDefined sessionIssueNum branchIssueNum)
                      in if issueNumber = None \<or> issueNumber = Some 0 then
                           (Inr (errorResult
                              ''Error: Could not determine issue number. Either pass 'number' parameter, use a session named '#N: Title', or be on a 'todo/N-*' branch.''
                              ''no issue number'' None), calls1)
                         else
                           (let calls2 = calls1 @ [GetIssue (the issueNumber)]
                            in case getIssue env (the issueNumber) of
                                 Inl e \<Rightarrow> (Inl e, calls2)
                               | Inr iss \<Rightarrow>
                                   if aborted env (length calls2)
                                   then (Inr (cancelledResult None), calls2)
                                   else prPush env params ctx currentBranch iss calls2))))"

definition executePr ::
  "tool_env \<Rightarrow> tool_params \<Rightarrow> extension_context \<Rightarrow> (string + tool_result) \<times> gateway_call list" where
  \<comment> \<open>\<open>execute\<close> with \<open>params.action = "pr"\<close>; \<open>Inl\<close> is an exception that leaves \<open>execute\<close>\<close>
  "executePr env params ctx =
     (case checkGhCli env of
        Inl e \<Rightarrow> (Inl e, [CheckGhCli])
      | Inr found \<Rightarrow>
          if \<not> found then
            (Inr (errorResult
               ''Error: GitHub CLI (gh) is not installed or not in PATH. Install it with: brew install gh''
               ''gh CLI not found'' None), [CheckGhCli])
          else if aborted env 1 then (Inr (cancelledResult (Some ''Cancelled'')), [CheckGhCli])
          else
            (case prCase env params ctx [CheckGhCli] of
               (Inl message, calls) \<Rightarrow>
                 if aborted env (length calls) then (Inr (cancelledResult (Some ''Cancelled'')), calls)
                 else (Inr \<lparr>r_text = ''Error: '' @ message,
                            r_details = \<lparr>d_action = ''pr'', d_error = Some message, d_issue = None,
                                          d_prUrl = None, d_prNumber = None\<rparr>,
                            r_isError = True\<rparr>, calls)
             | (Inr res, calls) \<Rightarrow> (Inr res, calls)))"

definition callsCreatePr :: "gateway_call list \<Rightarrow> bool" where
  "callsCreatePr calls = list_ex (\<lambda>c. case c of CreatePr t b h \<Rightarrow> True | _ \<Rightarrow> False) calls"

definition resultError :: "string + tool_result \<Rightarrow> string option" where
  \<comment> \<open>\<open>details.error\<close> of the returned result\<close>
  "resultError out = (case out of Inl e \<Rightarrow> None | Inr res \<Rightarrow> d_error (r_details res))"

text \<open>Environments for the examples: the current branch and the presence of the GitHub
  CLI vary, everything else is in order for issue 7.\<close>

definition exampleIssue :: gh_issue where
  "exampleIssue =
     \<lparr>issue_number = Some (JNumber 7), issue_title = Some (JString ''Fix''), state = ''open'',
      body = JString [], labels = [], assignees = [], url = JString [],
      createdAt = JString [], updatedAt = JString []\<rparr>"

definition exampleEnv :: "string \<Rightarrow> bool \<Rightarrow> tool_env" where
  "exampleEnv branch gh =
     \<lparr>checkGhCli = Inr gh,
      getCurrentBranch = Inr branch,
      getSessionName = None,
      getIssue = (\<lambda>n. Inr exampleIssue),
      hasUncommittedChanges = Inr False,
      hasUpstream = (\<lambda>b. Inr True),
      pushBranch = (\<lambda>b. Inr ()),
      findPrTemplate = Inr None,
      fillPrTemplate = (\<lambda>t i c cl. t),
      generatePrSummary = (\<lambda>i c cl. ''Related: #7''),
      createPr = (\<lambda>t b h. Inr (''https://github.com/o/r/pull/9'', 9)),
      aborted = (\<lambda>n. False),
      toText = (\<lambda>v. case v of Some (JString t) \<Rightarrow> t | _ \<Rightarrow> ''7'')\<rparr>"

definition exampleParams :: tool_params where
  "exampleParams = \<lparr>p_number = None, p_close = None\<rparr>"

section \<open>Properties\<close>

lemma startsWith_iff: "startsWith s p \<longleftrightarrow> (\<exists>rest. s = p @ rest)"
  by (induction s p rule: startsWith.induct) auto

subsection \<open>Section codec: malformed markers\<close>

text \<open>
  Claim C2. When the marker pair of a body is absent or malformed (the start marker is
  missing, the end marker is missing, or the first end marker is at or before the first
  start marker), \<open>extractPiSection\<close> returns null and \<open>extractUserContent\<close> returns the
  whole body trimmed.
\<close>

theorem malformed_markers_no_section:
  assumes "indexOf b PI_SECTION_START = None \<or> indexOf b PI_SECTION_END = None
           \<or> (\<exists>s e. indexOf b PI_SECTION_START = Some s \<and> indexOf b PI_SECTION_END = Some e \<and> e \<le> s)"
  shows "extractPiSection b = None \<and> extractUserContent b = trim b"
  using assms by (auto simp: extractPiSection_def extractUserContent_def split: option.splits)

theorem malformed_markers_no_section_witness:
  "indexOf '' x <!-- pi-agent-notes-end --> y '' PI_SECTION_START = None
   \<and> extractPiSection '' x <!-- pi-agent-notes-end --> y '' = None
   \<and> extractUserContent '' x <!-- pi-agent-notes-end --> y '' = ''x <!-- pi-agent-notes-end --> y''
   \<and> indexOf ''<!-- pi-agent-notes-end -->z<!-- pi-agent-notes-start -->'' PI_SECTION_START = Some 28
   \<and> indexOf ''<!-- pi-agent-notes-end -->z<!-- pi-agent-notes-start -->'' PI_SECTION_END = Some 0
   \<and> extractPiSection ''<!-- pi-agent-notes-end -->z<!-- pi-agent-notes-start -->'' = None"
proof -
  have h: "indexOf '' x <!-- pi-agent-notes-end --> y '' PI_SECTION_START = None"
    by code_simp
  have t: "trim '' x <!-- pi-agent-notes-end --> y '' = ''x <!-- pi-agent-notes-end --> y''"
    by code_simp
  have s: "indexOf ''<!-- pi-agent-notes-end -->z<!-- pi-agent-notes-start -->'' PI_SECTION_START = Some 28"
    by code_simp
  have e: "indexOf ''<!-- pi-agent-notes-end -->z<!-- pi-agent-notes-start -->'' PI_SECTION_END = Some 0"
    by code_simp
  from malformed_markers_no_section [of "'' x <!-- pi-agent-notes-end --> y ''"] h t
    malformed_markers_no_section [of "''<!-- pi-agent-notes-end -->z<!-- pi-agent-notes-start -->''"] s e
  show ?thesis by simp
qed

subsection \<open>Session names\<close>

text \<open>
  Claim C4. \<open>sessionMatchesIssue(s, N)\<close> is true exactly when \<open>s\<close> starts with the
  prefix \<open>#N: \<close> (number, colon, space); an undefined session name matches nothing.
  In particular \<open>#12: Fix bug\<close> matches issue 12 and not issue 1, and \<open>#120: x\<close> does
  not match issue 12.
\<close>

theorem sessionMatchesIssue_prefix:
  "(sessionMatchesIssue (Some s) n \<longleftrightarrow> (\<exists>rest. s = ''#'' @ numberToString n @ '': '' @ rest))
   \<and> \<not> sessionMatchesIssue None n
   \<and> sessionMatchesIssue (Some ''#12: Fix bug'') 12
   \<and> \<not> sessionMatchesIssue (Some ''#12: Fix bug'') 1
   \<and> \<not> sessionMatchesIssue (Some ''#120: x'') 12"
proof -
  have a: "sessionMatchesIssue (Some s) n \<longleftrightarrow> (\<exists>rest. s = ''#'' @ numberToString n @ '': '' @ rest)"
    by (auto simp: sessionMatchesIssue_def getIssueSessionPrefix_def startsWith_iff)
  have b: "\<not> sessionMatchesIssue None n"
    by (simp add: sessionMatchesIssue_def)
  have c: "sessionMatchesIssue (Some ''#12: Fix bug'') 12" by code_simp
  have d: "\<not> sessionMatchesIssue (Some ''#12: Fix bug'') 1" by code_simp
  have e: "\<not> sessionMatchesIssue (Some ''#120: x'') 12" by code_simp
  from a b c d e show ?thesis by blast
qed

subsection \<open>PR checkpoints\<close>

lemma checkpointScan_append:
  "k \<le> length es \<Longrightarrow> checkpointScan ctx (es @ rest) k = checkpointScan ctx es k"
  by (induction k) (simp_all add: nth_append Let_def)

lemma checkpointScan_snoc:
  "checkpointScan ctx (es @ [x]) (Suc (length es)) =
     (if isCheckpoint ctx x then Some (entry_id x) else checkpointScan ctx es (length es))"
  by (simp add: Let_def isCheckpoint_def PR_LABEL_CREATED_def PR_LABEL_UPDATED_def
      checkpointScan_append)

lemma checkpointScan_last:
  "isCheckpoint ctx e \<Longrightarrow> (\<forall>x\<in>set post. \<not> isCheckpoint ctx x) \<Longrightarrow>
     checkpointScan ctx (pre @ e # post) (length (pre @ e # post)) = Some (entry_id e)"
proof (induction post rule: rev_induct)
  case Nil
  then show ?case using checkpointScan_snoc [of ctx pre e] by simp
next
  case (snoc x xs)
  have "checkpointScan ctx ((pre @ e # xs) @ [x]) (Suc (length (pre @ e # xs))) =
        checkpointScan ctx (pre @ e # xs) (length (pre @ e # xs))"
    using snoc.prems by (simp only: checkpointScan_snoc) simp
  then show ?case using snoc by simp
qed

lemma checkpointScan_none_iff:
  "checkpointScan ctx es (length es) = None \<longleftrightarrow> (\<forall>x\<in>set es. \<not> isCheckpoint ctx x)"
proof (induction es rule: rev_induct)
  case Nil
  then show ?case by simp
next
  case (snoc x xs)
  then show ?case using checkpointScan_snoc [of ctx xs x] by auto
qed

text \<open>
  Claim C6. \<open>findLastPrCheckpointEntryId\<close> returns the id of the last entry of the
  branch whose label is \<open>pr-created\<close> or \<open>pr-update\<close> (every later entry being
  unlabelled), and null exactly when no entry is labelled; \<open>getEntriesAfter(null)\<close>
  returns all entries; on the history \<open>[e1, e2 (pr-created), e3]\<close> the result is the id
  of \<open>e2\<close>.
\<close>

theorem findLastPrCheckpointEntryId_most_recent:
  "(\<forall>pre e post. getBranch ctx = pre @ e # post \<and> isCheckpoint ctx e
        \<and> (\<forall>x\<in>set post. \<not> isCheckpoint ctx x)
      \<longrightarrow> findLastPrCheckpointEntryId ctx = Some (entry_id e))
   \<and> (findLastPrCheckpointEntryId ctx = None \<longleftrightarrow> (\<forall>x\<in>set (getBranch ctx). \<not> isCheckpoint ctx x))
   \<and> getEntriesAfter ctx None = getBranch ctx
   \<and> findLastPrCheckpointEntryId exampleLabelled = Some ''e2''"
proof -
  have a: "\<forall>pre e post. getBranch ctx = pre @ e # post \<and> isCheckpoint ctx e
        \<and> (\<forall>x\<in>set post. \<not> isCheckpoint ctx x)
      \<longrightarrow> findLastPrCheckpointEntryId ctx = Some (entry_id e)"
    using checkpointScan_last [of ctx] by (auto simp: findLastPrCheckpointEntryId_def Let_def)
  have b: "findLastPrCheckpointEntryId ctx = None \<longleftrightarrow> (\<forall>x\<in>set (getBranch ctx). \<not> isCheckpoint ctx x)"
    using checkpointScan_none_iff [of ctx "getBranch ctx"]
    by (simp add: findLastPrCheckpointEntryId_def Let_def)
  have c: "getEntriesAfter ctx None = getBranch ctx"
    by (simp add: getEntriesAfter_def)
  have d: "findLastPrCheckpointEntryId exampleLabelled = Some ''e2''"
    by code_simp
  from a b c d show ?thesis by blast
qed

theorem findLastPrCheckpointEntryId_most_recent_witness:
  "findLastPrCheckpointEntryId exampleLabelled = Some ''e2''
   \<and> findLastPrCheckpointEntryId exampleUnlabelled = None
   \<and> getEntriesAfter exampleUnlabelled (findLastPrCheckpointEntryId exampleUnlabelled) = exampleEntries"
proof -
  have split: "getBranch exampleLabelled =
      [\<lparr>entry_id = ''e1'', entry_kind = OtherEntry\<rparr>] @ \<lparr>entry_id = ''e2'', entry_kind = OtherEntry\<rparr>
        # [\<lparr>entry_id = ''e3'', entry_kind = OtherEntry\<rparr>]"
    by (simp add: exampleLabelled_def exampleEntries_def)
  have ck: "isCheckpoint exampleLabelled \<lparr>entry_id = ''e2'', entry_kind = OtherEntry\<rparr>"
    by (simp add: isCheckpoint_def exampleLabelled_def)
  have post: "\<forall>x\<in>set [\<lparr>entry_id = ''e3'', entry_kind = OtherEntry\<rparr>]. \<not> isCheckpoint exampleLabelled x"
    by (simp add: isCheckpoint_def exampleLabelled_def)
  have none: "\<forall>x\<in>set (getBranch exampleUnlabelled). \<not> isCheckpoint exampleUnlabelled x"
    by (simp add: isCheckpoint_def exampleUnlabelled_def)
  have 1: "findLastPrCheckpointEntryId exampleLabelled = Some ''e2''"
    using findLastPrCheckpointEntryId_most_recent [of exampleLabelled] split ck post
    by fastforce
  have 2: "findLastPrCheckpointEntryId exampleUnlabelled = None"
    using findLastPrCheckpointEntryId_most_recent [of exampleUnlabelled] none by blast
  have 3: "getEntriesAfter exampleUnlabelled None = getBranch exampleUnlabelled"
    using findLastPrCheckpointEntryId_most_recent [of exampleUnlabelled] by blast
  have 4: "getBranch exampleUnlabelled = exampleEntries"
    by (simp add: exampleUnlabelled_def)
  from 1 2 3 4 show ?thesis by simp
qed

subsection \<open>Context gatherer\<close>

lemma length_slice_le: "length (slice s 0 n) \<le> n"
  by (simp add: slice_def)

lemma appendEntry_acc: "appendEntry acc e = acc @ entryLine e"
  by (simp add: appendEntry_def entryLine_def Let_def split: entry_kind.splits message.splits)

lemma gatherLoop_concat: "gatherLoop acc es = acc @ concat (map entryLine es)"
proof (induction es arbitrary: acc)
  case Nil
  then show ?case by simp
next
  case (Cons e es)
  then show ?case by (simp add: appendEntry_acc [of acc e])
qed

lemma appendEntryScoped_acc:
  "appendEntryScoped acc e = (if scopedThrows e then None else Some (acc @ entryLine e))"
  by (simp add: appendEntryScoped_def scopedThrows_def appendEntry_def entryLine_def Let_def
      mapBlocksText_def toBlocks_def
      split: entry_kind.splits message.splits message_content.splits)

lemma gatherScopedLoop_concat:
  "gatherScopedLoop acc es = acc @ concat (map entryLine (takeWhile (\<lambda>e. \<not> scopedThrows e) es))"
proof (induction es arbitrary: acc)
  case Nil
  then show ?case by simp
next
  case (Cons e es)
  then show ?case by (simp add: appendEntryScoped_acc [of acc e])
qed

lemma entryLine_message:
  "messageText m = Some t \<Longrightarrow> t \<noteq> [] \<Longrightarrow>
   entryLine \<lparr>entry_id = i, entry_kind = MessageEntry m\<rparr> = roleLabel m @ take 500 t @ ''\<newline>\<newline>''"
  by (auto simp: messageText_def entryLine_def appendEntry_def roleLabel_def slice_def Let_def
      split: message.splits)

text \<open>
  Claim C5. For every conversation history the string returned by \<open>gatherSessionContext\<close>
  and by \<open>gatherScopedSessionContext\<close> has at most 8000 characters: it is the first
  8000 characters of the concatenation, in order, of what each entry contributes (for
  the scoped gatherer, of the entries after the checkpoint up to the first one on which
  the loop throws). A user or assistant message with non-empty text contributes its
  role label, the first 500 characters of its text and a blank line.
\<close>

theorem gathered_context_bounded:
  "length (gatherSessionContext ctx) \<le> 8000
   \<and> length (gatherScopedSessionContext ctx) \<le> 8000
   \<and> gatherSessionContext ctx = take 8000 (concat (map entryLine (getBranch ctx)))
   \<and> gatherScopedSessionContext ctx =
       take 8000 (concat (map entryLine (takeWhile (\<lambda>e. \<not> scopedThrows e)
         (getEntriesAfter ctx (findLastPrCheckpointEntryId ctx)))))
   \<and> (\<forall>i m t. messageText m = Some t \<and> t \<noteq> [] \<longrightarrow>
         entryLine \<lparr>entry_id = i, entry_kind = MessageEntry m\<rparr>
           = roleLabel m @ take 500 t @ ''\<newline>\<newline>'')"
proof -
  have a: "length (gatherSessionContext ctx) \<le> 8000"
    by (simp add: gatherSessionContext_def length_slice_le)
  have b: "length (gatherScopedSessionContext ctx) \<le> 8000"
    by (simp add: gatherScopedSessionContext_def Let_def length_slice_le)
  have c: "gatherSessionContext ctx = take 8000 (concat (map entryLine (getBranch ctx)))"
    by (simp add: gatherSessionContext_def gatherLoop_concat slice_def)
  have d: "gatherScopedSessionContext ctx =
       take 8000 (concat (map entryLine (takeWhile (\<lambda>e. \<not> scopedThrows e)
         (getEntriesAfter ctx (findLastPrCheckpointEntryId ctx)))))"
    by (simp add: gatherScopedSessionContext_def gatherScopedLoop_concat slice_def Let_def)
  have e: "\<forall>i m t. messageText m = Some t \<and> t \<noteq> [] \<longrightarrow>
         entryLine \<lparr>entry_id = i, entry_kind = MessageEntry m\<rparr>
           = roleLabel m @ take 500 t @ ''\<newline>\<newline>''"
    using entryLine_message by blast
  from a b c d e show ?thesis by blast
qed


theorem gathered_context_bounded_witness:
  "entryLine \<lparr>entry_id = ''u1'', entry_kind = MessageEntry (UserMessage (ContentString ''hi''))\<rparr>
     = ''User: hi\<newline>\<newline>''
   \<and> gatherSessionContext \<lparr>getBranch =
         [\<lparr>entry_id = ''u1'', entry_kind = MessageEntry (UserMessage (ContentString ''hi''))\<rparr>],
         getLabel = (\<lambda>i. None)\<rparr> = ''User: hi\<newline>\<newline>''"
proof -
  have t: "messageText (UserMessage (ContentString ''hi'')) = Some ''hi'' \<and> ''hi'' \<noteq> []"
    by (simp add: messageText_def blocksText_def toBlocks_def)
  have l: "entryLine \<lparr>entry_id = ''u1'', entry_kind = MessageEntry (UserMessage (ContentString ''hi''))\<rparr>
     = roleLabel (UserMessage (ContentString ''hi'')) @ take 500 ''hi'' @ ''\<newline>\<newline>''"
    using gathered_context_bounded [of undefined] t by blast
  then have l': "entryLine \<lparr>entry_id = ''u1'', entry_kind = MessageEntry (UserMessage (ContentString ''hi''))\<rparr>
     = ''User: hi\<newline>\<newline>''"
    by (simp add: roleLabel_def)
  have g: "gatherSessionContext \<lparr>getBranch =
         [\<lparr>entry_id = ''u1'', entry_kind = MessageEntry (UserMessage (ContentString ''hi''))\<rparr>],
         getLabel = (\<lambda>i. None)\<rparr>
     = take 8000 (concat (map entryLine
         [\<lparr>entry_id = ''u1'', entry_kind = MessageEntry (UserMessage (ContentString ''hi''))\<rparr>]))"
    using gathered_context_bounded [of "\<lparr>getBranch =
         [\<lparr>entry_id = ''u1'', entry_kind = MessageEntry (UserMessage (ContentString ''hi''))\<rparr>],
         getLabel = (\<lambda>i. None)\<rparr>"] by simp
  from l' g show ?thesis by simp
qed

subsection \<open>Branch names\<close>

lemma dash_not_slug: "\<not> isSlugChar CHR ''-''"
  by (simp add: isSlugChar_def)

lemma slug_not_dash: "isSlugChar c \<Longrightarrow> \<not> isDash c"
  using dash_not_slug by (auto simp: isDash_def)

lemma squeeze_dash_run:
  "squeezeDashes (CHR ''-'' # map (\<lambda>c. if isSlugChar c then c else CHR ''-'') cs) =
   CHR ''-'' # squeezeDashes (map (\<lambda>c. if isSlugChar c then c else CHR ''-'')
                 (dropWhile (\<lambda>x. \<not> isSlugChar x) cs))"
proof (induction cs)
  case Nil
  then show ?case by simp
next
  case (Cons d ds)
  show ?case
  proof (cases "isSlugChar d")
    case True
    then show ?thesis using slug_not_dash [of d] by simp
  next
    case False
    then show ?thesis using Cons.IH by (simp add: isDash_def)
  qed
qed

lemma squeeze_slug_head:
  "isSlugChar c \<Longrightarrow> squeezeDashes (c # xs) = c # squeezeDashes xs"
  using slug_not_dash [of c] by (cases xs) simp_all

lemma replaceNonSlugRuns_spec: "replaceNonSlugRuns s = specCollapse s"
proof (induction s rule: replaceNonSlugRuns.induct)
  case 1
  then show ?case by (simp add: specCollapse_def)
next
  case (2 c cs)
  show ?case
  proof (cases "isSlugChar c")
    case True
    then show ?thesis using 2 by (simp add: specCollapse_def squeeze_slug_head)
  next
    case False
    then show ?thesis using 2 squeeze_dash_run [of cs] by (simp add: specCollapse_def)
  qed
qed

lemma removeTrailingDashes_spec: "removeTrailingDashes s = specStripTrailing s"
proof (induction s)
  case Nil
  then show ?case by (simp add: specStripTrailing_def)
next
  case (Cons c cs)
  show ?case
  proof (cases "dropWhile isDash cs = []")
    case True
    then have all: "\<And>x. x \<in> set (rev cs) \<Longrightarrow> isDash x"
      by (simp add: dropWhile_eq_Nil_conv)
    have app: "dropWhile isDash (rev cs @ [c]) = dropWhile isDash [c]"
      using all by (rule dropWhile_append2)
    have tail: "removeTrailingDashes cs = []"
      using Cons.IH all by (simp add: specStripTrailing_def dropWhile_eq_Nil_conv)
    show ?thesis using True app tail by (simp add: specStripTrailing_def)
  next
    case False
    then obtain x where x: "x \<in> set (rev cs)" "\<not> isDash x"
      by (auto simp: dropWhile_eq_Nil_conv)
    have "dropWhile isDash (rev cs @ [c]) = dropWhile isDash (rev cs) @ [c]"
      using x by (simp add: dropWhile_append1)
    with False show ?thesis using Cons.IH by (simp add: specStripTrailing_def)
  qed
qed

lemma removeEdgeDashes_spec: "removeEdgeDashes s = specStripTrailing (specStripLeading s)"
proof (cases s)
  case Nil
  then show ?thesis by (simp add: removeEdgeDashes_def specStripTrailing_def specStripLeading_def)
next
  case (Cons c cs)
  show ?thesis
  proof (cases "isDash c")
    case True
    then show ?thesis using Cons
      by (simp add: removeEdgeDashes_def specStripLeading_def removeTrailingDashes_spec)
  next
    case False
    have "removeEdgeDashes s = removeTrailingDashes (c # cs)"
    proof (cases "dropWhile isDash cs = []")
      case True
      then show ?thesis using False Cons by (simp add: removeEdgeDashes_def)
    next
      case False
      then show ?thesis using Cons \<open>\<not> isDash c\<close> by (simp add: removeEdgeDashes_def)
    qed
    then show ?thesis using False Cons
      by (simp only: removeTrailingDashes_spec specStripLeading_def dropWhile.simps if_False)
  qed
qed

lemma getIssueBranchName_spec:
  "getIssueBranchName issue = ''todo/'' @ numberToString (number issue) @ ''-'' @ specSlug (title issue)"
  by (simp add: getIssueBranchName_def specSlug_def slice_def removeTrailingDashes_spec
      removeEdgeDashes_spec replaceNonSlugRuns_spec)

text \<open>
  Claim C3. For every issue, \<open>getIssueBranchName\<close> returns \<open>todo/{number}-{slug}\<close>
  where the slug is the title in lower case, every run of characters outside
  \<^verbatim>\<open>[a-z0-9]\<close> collapsed to a single dash, leading and trailing dashes stripped,
  truncated to 50 characters, and trailing dashes stripped again. In particular the
  issue 7 titled \<open>Fix!! the Thing (v2)\<close> gets the branch \<open>todo/7-fix-the-thing-v2\<close>.
\<close>

theorem getIssueBranchName_slug:
  "getIssueBranchName issue
     = ''todo/'' @ numberToString (number issue) @ ''-'' @ specSlug (title issue)
   \<and> getIssueBranchName \<lparr>number = 7, title = ''Fix!! the Thing (v2)''\<rparr>
     = ''todo/7-fix-the-thing-v2''"
proof -
  have "getIssueBranchName \<lparr>number = 7, title = ''Fix!! the Thing (v2)''\<rparr>
     = ''todo/7-fix-the-thing-v2''"
    by code_simp
  then show ?thesis using getIssueBranchName_spec [of issue] by simp
qed









subsection \<open>Parsing\<close>

lemma bindE_Inr: "bindE m f = Inr y \<longleftrightarrow> (\<exists>x. m = Inr x \<and> f x = Inr y)"
  by (cases m) (simp_all add: bindE_def)

lemma normalizeState_values: "normalizeState st = Inr r \<Longrightarrow> r = ''closed'' \<or> r = ''open''"
  by (induction st rule: normalizeState.induct) (auto split: if_splits)

lemma normalizeState_closed:
  "normalizeState st = Inr r \<Longrightarrow>
     r = ''closed'' \<longleftrightarrow> (\<exists>t. st = Some (JString t) \<and> toLowerCase t = ''closed'')"
  by (induction st rule: normalizeState.induct) (auto split: if_splits)

lemma issueOfJson_state:
  assumes "issueOfJson v = Inr i"
  shows "\<exists>st. getProp (Some v) ''state'' = Inr st \<and> normalizeState st = Inr (state i)"
proof -
  from assms obtain st st' where "getProp (Some v) ''state'' = Inr st" "normalizeState st = Inr st'"
    "state i = st'"
    unfolding issueOfJson_def bindE_Inr by auto
  then show ?thesis by auto
qed

lemma issueOfJson_closed:
  assumes "issueOfJson v = Inr i"
  shows "(state i = ''closed'' \<longleftrightarrow> stateFieldClosed v) \<and> (state i = ''closed'' \<or> state i = ''open'')"
proof -
  from issueOfJson_state [OF assms] obtain st where
    st: "getProp (Some v) ''state'' = Inr st" "normalizeState st = Inr (state i)" by blast
  have "state i = ''closed'' \<longleftrightarrow> (\<exists>t. st = Some (JString t) \<and> toLowerCase t = ''closed'')"
    using normalizeState_closed [OF st(2)] .
  also have "\<dots> \<longleftrightarrow> stateFieldClosed v"
    using st(1) by (auto simp: stateFieldClosed_def split: option.splits json.splits)
  finally show ?thesis using normalizeState_values [OF st(2)] by simp
qed

lemma mapE_Inr:
  "mapE f xs = Inr ys \<Longrightarrow> length ys = length xs \<and> (\<forall>k<length xs. f (xs ! k) = Inr (ys ! k))"
proof (induction xs arbitrary: ys)
  case Nil
  then show ?case by simp
next
  case (Cons x xs)
  from Cons.prems obtain y ys' where y: "f x = Inr y" "mapE f xs = Inr ys'" "ys = y # ys'"
    by (auto simp: bindE_Inr)
  from Cons.IH [OF y(2)] y show ?case
    by (auto simp: nth_Cons split: nat.splits)
qed

lemma parseIssues_nonempty:
  assumes "k < length (parseIssues parse s)"
  shows "\<exists>items. parse s = Some (JArray items) \<and> mapE issueOfJson items = Inr (parseIssues parse s)"
  using assms by (auto simp: parseIssues_def split: option.splits json.splits sum.splits)

text \<open>
  Claim C10. Every issue produced by \<open>parseIssue\<close> or \<open>parseIssues\<close> has the state
  \<open>open\<close> or \<open>closed\<close>, and it is \<open>closed\<close> exactly when the state field of the input
  value is a string that lowercases to \<open>closed\<close>. A missing state, a null state and a
  string that does not lowercase to \<open>closed\<close> are normalised to \<open>open\<close>. (A state of
  any other type makes the parser throw inside its \<open>try\<close>: no issue is produced.)
\<close>

theorem parsed_state_open_or_closed:
  "(\<forall>i. parseIssue parse s = Some i \<longrightarrow>
       (state i = ''closed'' \<or> state i = ''open'')
       \<and> (\<exists>v. parse s = Some v \<and> (state i = ''closed'' \<longleftrightarrow> stateFieldClosed v)))
   \<and> (\<forall>k<length (parseIssues parse s).
       (state (parseIssues parse s ! k) = ''closed'' \<or> state (parseIssues parse s ! k) = ''open'')
       \<and> (\<exists>items. parse s = Some (JArray items) \<and> length items = length (parseIssues parse s)
            \<and> (state (parseIssues parse s ! k) = ''closed'' \<longleftrightarrow> stateFieldClosed (items ! k))))
   \<and> normalizeState None = Inr ''open''
   \<and> normalizeState (Some JNull) = Inr ''open''
   \<and> (\<forall>t. toLowerCase t \<noteq> ''closed'' \<longrightarrow> normalizeState (Some (JString t)) = Inr ''open'')"
proof -
  have norm: "normalizeState None = Inr ''open'' \<and> normalizeState (Some JNull) = Inr ''open''
   \<and> (\<forall>t. toLowerCase t \<noteq> ''closed'' \<longrightarrow> normalizeState (Some (JString t)) = Inr ''open'')"
    by simp
  have one: "\<forall>i. parseIssue parse s = Some i \<longrightarrow>
       (state i = ''closed'' \<or> state i = ''open'')
       \<and> (\<exists>v. parse s = Some v \<and> (state i = ''closed'' \<longleftrightarrow> stateFieldClosed v))"
  proof (intro allI impI)
    fix i assume "parseIssue parse s = Some i"
    then obtain v where v: "parse s = Some v" "issueOfJson v = Inr i"
      by (auto simp: parseIssue_def split: option.splits sum.splits)
    from issueOfJson_closed [OF v(2)] v(1)
    show "(state i = ''closed'' \<or> state i = ''open'')
       \<and> (\<exists>v. parse s = Some v \<and> (state i = ''closed'' \<longleftrightarrow> stateFieldClosed v))"
      by blast
  qed
  have many: "\<forall>k<length (parseIssues parse s).
       (state (parseIssues parse s ! k) = ''closed'' \<or> state (parseIssues parse s ! k) = ''open'')
       \<and> (\<exists>items. parse s = Some (JArray items) \<and> length items = length (parseIssues parse s)
            \<and> (state (parseIssues parse s ! k) = ''closed'' \<longleftrightarrow> stateFieldClosed (items ! k)))"
  proof (intro allI impI)
    fix k assume k: "k < length (parseIssues parse s)"
    from parseIssues_nonempty [OF k] obtain items where
      items: "parse s = Some (JArray items)" "mapE issueOfJson items = Inr (parseIssues parse s)"
      by blast
    from mapE_Inr [OF items(2)] k have len: "length (parseIssues parse s) = length items"
      and el: "issueOfJson (items ! k) = Inr (parseIssues parse s ! k)" by auto
    from issueOfJson_closed [OF el] items(1) len
    show "(state (parseIssues parse s ! k) = ''closed'' \<or> state (parseIssues parse s ! k) = ''open'')
       \<and> (\<exists>items. parse s = Some (JArray items) \<and> length items = length (parseIssues parse s)
            \<and> (state (parseIssues parse s ! k) = ''closed'' \<longleftrightarrow> stateFieldClosed (items ! k)))"
      by auto
  qed
  from one many norm show ?thesis by blast
qed

text \<open>
  Claim C8. When the text is not valid JSON, or parses to a value that is not an array,
  \<open>parseIssues\<close> returns the empty list instead of raising; so \<open>listIssues\<close>, whose CLI
  call returned such a text as its output (exit code 0), yields an empty issue list.
\<close>

theorem parseIssues_malformed_empty:
  assumes "parse s = None \<or> (\<exists>v. parse s = Some v \<and> \<not> isArray v)"
  shows "parseIssues parse s = []
         \<and> listIssues parse \<lparr>code = 0, stdout = s, stderr = e\<rparr> = Inr []"
proof -
  have "parseIssues parse s = []"
  proof (cases "parse s")
    case None
    then show ?thesis by (simp add: parseIssues_def)
  next
    case (Some v)
    with assms have "\<not> isArray v" by simp
    with Some show ?thesis by (cases v) (simp_all add: parseIssues_def isArray_def)
  qed
  then show ?thesis by (simp add: listIssues_def)
qed

theorem parseIssues_malformed_empty_witness:
  "exampleParse ''<html>'' = None \<and> parseIssues exampleParse ''<html>'' = []
   \<and> exampleParse ''{}'' = Some (JObject []) \<and> parseIssues exampleParse ''{}'' = []
   \<and> listIssues exampleParse \<lparr>code = 0, stdout = ''<html>'', stderr = []\<rparr> = Inr []"
proof -
  have a: "exampleParse ''<html>'' = None" by (simp add: exampleParse_def)
  have b: "exampleParse ''{}'' = Some (JObject [])" by (simp add: exampleParse_def)
  have c: "\<not> isArray (JObject [])" by (simp add: isArray_def)
  from parseIssues_malformed_empty [of exampleParse "''<html>''" "[]"] a
    parseIssues_malformed_empty [of exampleParse "''{}''" "[]"] b c
  show ?thesis by simp
qed

theorem parsed_state_open_or_closed_witness:
  \<open>state (the (parseIssue exampleParse ''{"state":"CLOSED"}'')) = ''closed''
   \<and> map state (parseIssues exampleParse ''[{"state":"CLOSED"},{"state":"MERGED"},{}]'')
       = [''closed'', ''open'', ''open'']\<close>
proof -
  let ?one = \<open>''{"state":"CLOSED"}''\<close>
  let ?many = \<open>''[{"state":"CLOSED"},{"state":"MERGED"},{}]''\<close>
  have p1: "parseIssue exampleParse ?one \<noteq> None" by code_simp
  have v1: "exampleParse ?one = Some (JObject [(''state'', JString ''CLOSED'')])"
    by (simp add: exampleParse_def)
  have c1: "stateFieldClosed (JObject [(''state'', JString ''CLOSED'')])" by code_simp
  from p1 obtain i where i: "parseIssue exampleParse ?one = Some i" by blast
  have 1: "state (the (parseIssue exampleParse ?one)) = ''closed''"
    using parsed_state_open_or_closed [of exampleParse ?one] i v1 c1 by auto
  have 2: "map state (parseIssues exampleParse ?many) = [''closed'', ''open'', ''open'']"
    by code_simp
  from 1 2 show ?thesis by simp
qed

subsection \<open>The \<open>pr\<close> action on the main branch\<close>

lemma prCase_on_main:
  assumes "getCurrentBranch env = Inr b" and "b = ''main'' \<or> b = ''master''"
  shows "prCase env params ctx [CheckGhCli] =
          (if aborted env 2 then (Inr (cancelledResult None), [CheckGhCli, GetCurrentBranch])
           else (Inr (errorResult
                  ''Error: Cannot create PR from main/master branch. Create a feature branch first.''
                  ''on main branch'' None), [CheckGhCli, GetCurrentBranch]))"
proof -
  have "isMainBranch b" using assms(2) by (simp add: isMainBranch_def)
  then show ?thesis using assms(1) by (simp add: prCase_def Let_def numeral_2_eq_2)
qed

lemma executePr_calls_on_main:
  assumes "getCurrentBranch env = Inr b" and "b = ''main'' \<or> b = ''master''"
  shows "snd (executePr env params ctx) = [CheckGhCli]
         \<or> snd (executePr env params ctx) = [CheckGhCli, GetCurrentBranch]"
proof (cases "checkGhCli env")
  case (Inl e)
  then show ?thesis by (simp add: executePr_def)
next
  case (Inr found)
  then show ?thesis
    using prCase_on_main [OF assms, of params ctx]
    by (simp add: executePr_def)
qed

text \<open>
  Claim C7 (as amended). For every invocation of the tool with the action \<open>pr\<close> while
  the current git branch is exactly \<open>main\<close> or \<open>master\<close>, \<open>createPr\<close> is never called;
  and when the GitHub CLI is found and the signal is not aborted at the two checks that
  come before the branch test, the tool returns an error result whose \<open>details.error\<close>
  is \<open>on main branch\<close>, after the calls of \<open>checkGhCli\<close> and \<open>getCurrentBranch\<close> only.
\<close>

theorem pr_on_main_rejected:
  assumes "getCurrentBranch env = Inr b" and "b = ''main'' \<or> b = ''master''"
  shows "\<not> callsCreatePr (snd (executePr env params ctx))
         \<and> (checkGhCli env = Inr True \<and> \<not> aborted env 1 \<and> \<not> aborted env 2 \<longrightarrow>
              resultError (fst (executePr env params ctx)) = Some ''on main branch''
              \<and> r_isError (projr (fst (executePr env params ctx)))
              \<and> executePr env params ctx =
                  (Inr (errorResult
                     ''Error: Cannot create PR from main/master branch. Create a feature branch first.''
                     ''on main branch'' None), [CheckGhCli, GetCurrentBranch]))"
proof -
  have never: "\<not> callsCreatePr (snd (executePr env params ctx))"
    using executePr_calls_on_main [OF assms, of params ctx]
    by (auto simp: callsCreatePr_def)
  have rejected: "executePr env params ctx =
      (Inr (errorResult
         ''Error: Cannot create PR from main/master branch. Create a feature branch first.''
         ''on main branch'' None), [CheckGhCli, GetCurrentBranch])"
    if "checkGhCli env = Inr True" "\<not> aborted env 1" "\<not> aborted env 2"
    using that prCase_on_main [OF assms, of params ctx] by (simp add: executePr_def)
  show ?thesis
    using never rejected by (auto simp: resultError_def errorResult_def)
qed

theorem pr_on_main_rejected_witness:
  "getCurrentBranch (exampleEnv ''main'' True) = Inr ''main''
   \<and> \<not> callsCreatePr (snd (executePr (exampleEnv ''main'' True) exampleParams exampleUnlabelled))
   \<and> resultError (fst (executePr (exampleEnv ''main'' True) exampleParams exampleUnlabelled))
       = Some ''on main branch''
   \<and> callsCreatePr (snd (executePr (exampleEnv ''todo/7-fix'' True) exampleParams exampleUnlabelled))"
proof -
  have b: "getCurrentBranch (exampleEnv ''main'' True) = Inr ''main''"
    by (simp add: exampleEnv_def)
  have g: "checkGhCli (exampleEnv ''main'' True) = Inr True \<and> \<not> aborted (exampleEnv ''main'' True) 1
           \<and> \<not> aborted (exampleEnv ''main'' True) 2"
    by (simp add: exampleEnv_def)
  have reach: "callsCreatePr (snd (executePr (exampleEnv ''todo/7-fix'' True) exampleParams exampleUnlabelled))"
    by code_simp
  from pr_on_main_rejected [OF b, of exampleParams exampleUnlabelled] g b reach
  show ?thesis by blast
qed

text \<open>
  The claim without the two conditions fails: on \<open>main\<close>, without the GitHub CLI, the
  tool returns the error \<open>gh CLI not found\<close>.
\<close>

theorem pr_on_main_counterexample:
  "getCurrentBranch (exampleEnv ''main'' False) = Inr ''main''
   \<and> resultError (fst (executePr (exampleEnv ''main'' False) exampleParams exampleUnlabelled))
       = Some ''gh CLI not found''
   \<and> resultError (fst (executePr (exampleEnv ''main'' False) exampleParams exampleUnlabelled))
       \<noteq> Some ''on main branch''"
proof -
  have b: "getCurrentBranch (exampleEnv ''main'' False) = Inr ''main''"
    by (simp add: exampleEnv_def)
  have r: "resultError (fst (executePr (exampleEnv ''main'' False) exampleParams exampleUnlabelled))
       = Some ''gh CLI not found''"
    by (simp add: executePr_def exampleEnv_def resultError_def errorResult_def)
  from b r show ?thesis by simp
qed

subsection \<open>Section codec: updating the notes\<close>









































end
